theory Spec2Isabelle
  imports Main
begin

section \<open>Python values as loaded by \<open>json.load\<close>\<close>

text \<open>
  Both scripts (\<^verbatim>\<open>top_down_pose_tracking_input.py\<close> and
  \<^verbatim>\<open>vis_pose_tracking_result.py\<close>) read one JSON document and walk its
  \<^verbatim>\<open>annotations\<close> and \<^verbatim>\<open>categories\<close> lists.  A loaded JSON value is
  \<^verbatim>\<open>None\<close>, a \<^verbatim>\<open>bool\<close>, an unbounded \<^verbatim>\<open>int\<close>, a \<^verbatim>\<open>float\<close>, a \<^verbatim>\<open>str\<close>,
  a \<^verbatim>\<open>list\<close> or a \<^verbatim>\<open>dict\<close> with string keys.  A dict is an association list
  read with \<open>map_of\<close>; a loaded dict has no repeated key.  One \<open>char\<close> stands for one
  character of a Python string.  The payload \<open>'f\<close> of a float is left open: IEEE
  arithmetic is not modelled, it is supplied through \<open>py_ops\<close> below.
\<close>

datatype 'f json =
    JNull
  | JBool bool
  | JInt int
  | JFloat 'f
  | JStr string
  | JArr "'f json list"
  | JObj "(string \<times> 'f json) list"

type_synonym 'f pydict = "(string \<times> 'f json) list"

text \<open>The exceptions the modelled statements can raise.\<close>

datatype error =
    KeyError
  | IndexError
  | TypeError
  | ValueError
  | OverflowError
  | UnboundLocalError

text \<open>A Python number: \<^verbatim>\<open>bool\<close> is a subclass of \<^verbatim>\<open>int\<close>, so both read as \<open>NInt\<close>.\<close>

datatype 'f num = NInt int | NFloat 'f

text \<open>
  The parts of the Python runtime that the model takes as given: arithmetic and
  comparison as soon as one operand is a float (\<open>float_add\<close>, \<open>float_sub\<close>,
  \<open>float_eq\<close>; mixing with a huge \<^verbatim>\<open>int\<close> can raise), \<^verbatim>\<open>int(x)\<close> of a float and
  of a string, and the float literal \<^verbatim>\<open>1.0\<close>.  Every theorem below holds for all
  such operations.
\<close>

record 'f py_ops =
  float_add :: "'f num \<Rightarrow> 'f num \<Rightarrow> error + 'f"
  float_sub :: "'f num \<Rightarrow> 'f num \<Rightarrow> error + 'f"
  float_eq :: "'f num \<Rightarrow> 'f num \<Rightarrow> bool"
  float_int :: "'f \<Rightarrow> error + int"
  str_int :: "string \<Rightarrow> error + int"
  float_one :: 'f

fun as_num :: "'f json \<Rightarrow> 'f num option" where
  "as_num (JBool b) = Some (NInt (if b then 1 else 0))"
| "as_num (JInt n) = Some (NInt n)"
| "as_num (JFloat x) = Some (NFloat x)"
| "as_num _ = None"

fun num_eq :: "'f py_ops \<Rightarrow> 'f num \<Rightarrow> 'f num \<Rightarrow> bool" where
  "num_eq ops (NInt a) (NInt b) = (a = b)"
| "num_eq ops x y = float_eq ops x y"

fun num_add :: "'f py_ops \<Rightarrow> 'f num \<Rightarrow> 'f num \<Rightarrow> error + 'f json" where
  "num_add ops (NInt a) (NInt b) = Inr (JInt (a + b))"
| "num_add ops x y = (case float_add ops x y of Inl e \<Rightarrow> Inl e | Inr r \<Rightarrow> Inr (JFloat r))"

fun num_sub :: "'f py_ops \<Rightarrow> 'f num \<Rightarrow> 'f num \<Rightarrow> error + 'f json" where
  "num_sub ops (NInt a) (NInt b) = Inr (JInt (a - b))"
| "num_sub ops x y = (case float_sub ops x y of Inl e \<Rightarrow> Inl e | Inr r \<Rightarrow> Inr (JFloat r))"

text \<open>
  \<^verbatim>\<open>a == b\<close> on loaded values: numbers compare by value across \<^verbatim>\<open>bool\<close>, \<^verbatim>\<open>int\<close>
  and \<^verbatim>\<open>float\<close>, lists elementwise, dicts key by key, and values of different kinds
  are unequal.
\<close>

fun py_eq :: "'f py_ops \<Rightarrow> 'f json \<Rightarrow> 'f json \<Rightarrow> bool"
  and py_eq_list :: "'f py_ops \<Rightarrow> 'f json list \<Rightarrow> 'f json list \<Rightarrow> bool"
  and py_eq_items :: "'f py_ops \<Rightarrow> 'f pydict \<Rightarrow> 'f pydict \<Rightarrow> bool"
where
  "py_eq ops (JArr xs) b = (case b of JArr ys \<Rightarrow> py_eq_list ops xs ys | _ \<Rightarrow> False)"
| "py_eq ops (JObj xs) b =
     (case b of JObj ys \<Rightarrow> length xs = length ys \<and> py_eq_items ops xs ys | _ \<Rightarrow> False)"
| "py_eq ops (JStr s) b = (case b of JStr t \<Rightarrow> s = t | _ \<Rightarrow> False)"
| "py_eq ops JNull b = (case b of JNull \<Rightarrow> True | _ \<Rightarrow> False)"
| "py_eq ops a b =
     (case (as_num a, as_num b) of (Some x, Some y) \<Rightarrow> num_eq ops x y | _ \<Rightarrow> False)"
| "py_eq_list ops [] ys = (ys = [])"
| "py_eq_list ops (x # xs) ys =
     (case ys of [] \<Rightarrow> False | y # ys' \<Rightarrow> py_eq ops x y \<and> py_eq_list ops xs ys')"
| "py_eq_items ops [] ys = True"
| "py_eq_items ops ((k, v) # xs) ys =
     (case map_of ys k of None \<Rightarrow> False | Some w \<Rightarrow> py_eq ops v w \<and> py_eq_items ops xs ys)"

text \<open>\<^verbatim>\<open>a + b\<close>: numbers add, strings and lists concatenate, anything else is a
  \<^verbatim>\<open>TypeError\<close>.\<close>

fun py_add :: "'f py_ops \<Rightarrow> 'f json \<Rightarrow> 'f json \<Rightarrow> error + 'f json" where
  "py_add ops (JStr s) b = (case b of JStr t \<Rightarrow> Inr (JStr (s @ t)) | _ \<Rightarrow> Inl TypeError)"
| "py_add ops (JArr xs) b = (case b of JArr ys \<Rightarrow> Inr (JArr (xs @ ys)) | _ \<Rightarrow> Inl TypeError)"
| "py_add ops a b =
     (case (as_num a, as_num b) of (Some x, Some y) \<Rightarrow> num_add ops x y | _ \<Rightarrow> Inl TypeError)"

text \<open>\<^verbatim>\<open>a - b\<close>: defined on numbers only.\<close>

definition py_sub :: "'f py_ops \<Rightarrow> 'f json \<Rightarrow> 'f json \<Rightarrow> error + 'f json" where
  "py_sub ops a b =
     (case (as_num a, as_num b) of (Some x, Some y) \<Rightarrow> num_sub ops x y | _ \<Rightarrow> Inl TypeError)"

text \<open>\<^verbatim>\<open>int(v)\<close>.\<close>

fun py_int :: "'f py_ops \<Rightarrow> 'f json \<Rightarrow> error + int" where
  "py_int ops (JInt n) = Inr n"
| "py_int ops (JBool b) = Inr (if b then 1 else 0)"
| "py_int ops (JFloat x) = float_int ops x"
| "py_int ops (JStr s) = str_int ops s"
| "py_int ops _ = Inl TypeError"

text \<open>\<^verbatim>\<open>d[k]\<close> on a dict: the value, or \<^verbatim>\<open>KeyError\<close>.\<close>

definition dict_get :: "'f pydict \<Rightarrow> string \<Rightarrow> error + 'f json" where
  "dict_get d k = (case map_of d k of None \<Rightarrow> Inl KeyError | Some v \<Rightarrow> Inr v)"

text \<open>\<^verbatim>\<open>v[k]\<close> with a string \<open>k\<close> on any value: only a dict can be subscripted with a
  string.\<close>

fun py_getitem :: "'f json \<Rightarrow> string \<Rightarrow> error + 'f json" where
  "py_getitem (JObj d) k = dict_get d k"
| "py_getitem _ k = Inl TypeError"

text \<open>\<^verbatim>\<open>v[i]\<close> with a literal index \<open>i \<ge> 0\<close> on any value.\<close>

fun py_index :: "'f json \<Rightarrow> nat \<Rightarrow> error + 'f json" where
  "py_index (JArr xs) i = (if i < length xs then Inr (xs ! i) else Inl IndexError)"
| "py_index (JStr s) i = (if i < length s then Inr (JStr [s ! i]) else Inl IndexError)"
| "py_index (JObj d) i = Inl KeyError"
| "py_index _ i = Inl TypeError"

fun is_substring :: "string \<Rightarrow> string \<Rightarrow> bool" where
  "is_substring k [] = (k = [])"
| "is_substring k (c # s) = (take (length k) (c # s) = k \<or> is_substring k s)"

text \<open>\<^verbatim>\<open>k in v\<close> with a string \<open>k\<close>: key of a dict, element of a list, substring of
  a string; the other values are not iterable.\<close>

fun py_contains :: "string \<Rightarrow> 'f json \<Rightarrow> error + bool" where
  "py_contains k (JObj d) = Inr (map_of d k \<noteq> None)"
| "py_contains k (JArr xs) = Inr (JStr k \<in> set xs)"
| "py_contains k (JStr s) = Inr (is_substring k s)"
| "py_contains k _ = Inl TypeError"

text \<open>The loaded document: \<^verbatim>\<open>json_data["annotations"]\<close> and
  \<^verbatim>\<open>json_data["categories"]\<close>, each a list of dicts.\<close>

record 'f document =
  annotations :: "'f pydict list"
  categories :: "'f pydict list"

section \<open>Resolving the person category id\<close>

text \<open>
  \<^verbatim>\<open>
  for data in json_data["annotations"]:
      for data in json_data["categories"]:
          label_name = data["name"]
          if label_name == "person":
              this_person_cat_id = data["id"]
  \<close>
  The local variable \<^verbatim>\<open>this_person_cat_id\<close> is \<open>None\<close> while unbound.
\<close>

fun scan_categories :: "'f pydict list \<Rightarrow> 'f json option \<Rightarrow> error + 'f json option" where
  "scan_categories [] this_person_cat_id = Inr this_person_cat_id"
| "scan_categories (data # rest) this_person_cat_id =
     (case dict_get data ''name'' of
        Inl e \<Rightarrow> Inl e
      | Inr label_name \<Rightarrow>
          if label_name = JStr ''person''
          then (case dict_get data ''id'' of
                  Inl e \<Rightarrow> Inl e
                | Inr i \<Rightarrow> scan_categories rest (Some i))
          else scan_categories rest this_person_cat_id)"

fun resolve_loop ::
  "'f pydict list \<Rightarrow> 'f pydict list \<Rightarrow> 'f json option \<Rightarrow> error + 'f json option" where
  "resolve_loop [] cats this_person_cat_id = Inr this_person_cat_id"
| "resolve_loop (data # rest) cats this_person_cat_id =
     (case scan_categories cats this_person_cat_id of
        Inl e \<Rightarrow> Inl e
      | Inr cur \<Rightarrow> resolve_loop rest cats cur)"

definition resolve_person_cat_id :: "'f document \<Rightarrow> error + 'f json option" where
  "resolve_person_cat_id json_data =
     resolve_loop (annotations json_data) (categories json_data) None"

text \<open>The entries of \<^verbatim>\<open>categories\<close> on which the test \<^verbatim>\<open>label_name == "person"\<close>
  succeeds, in list order.\<close>

definition person_categories :: "'f pydict list \<Rightarrow> 'f pydict list" where
  "person_categories cats = filter (\<lambda>c. map_of c ''name'' = Some (JStr ''person'')) cats"

section \<open>Non-person passthrough (inference script, lines 161--173)\<close>

text \<open>
  \<^verbatim>\<open>
  for data in json_data["annotations"]:
      category_id = data["category_id"]
      if category_id == this_person_cat_id:
          continue
      dict_obj = {
          'track_id': data["track_id"] if "track_id" in data else data["attributes"]["track_id"],
          'frame_id': data["frame_id"] if "frame_id" in data  else data["attributes"]["image_id"],
          'bbox': data["bbox"],
          'occluded' : 0 if data.get("occluded") is None else data.get("occluded"),
          'category_id': category_id
      }
      results['annotations'].append(dict_obj)
  \<close>
\<close>

record 'f other_ann =
  o_track_id :: "'f json"
  o_frame_id :: "'f json"
  o_bbox :: "'f json"
  o_occluded :: "'f json"
  o_category_id :: "'f json"

text \<open>\<^verbatim>\<open>data[k] if k in data else data["attributes"][k']\<close>\<close>

definition direct_else_attribute :: "'f pydict \<Rightarrow> string \<Rightarrow> string \<Rightarrow> error + 'f json" where
  "direct_else_attribute data k k' =
     (case map_of data k of
        Some v \<Rightarrow> Inr v
      | None \<Rightarrow>
          (case dict_get data ''attributes'' of
             Inl e \<Rightarrow> Inl e
           | Inr a \<Rightarrow> py_getitem a k'))"

text \<open>\<^verbatim>\<open>0 if d.get("occluded") is None else d.get("occluded")\<close>, on the result of
  \<^verbatim>\<open>d.get("occluded")\<close> (\<open>None\<close> for a missing key).\<close>

fun occluded_or_zero :: "'f json option \<Rightarrow> 'f json" where
  "occluded_or_zero None = JInt 0"
| "occluded_or_zero (Some JNull) = JInt 0"
| "occluded_or_zero (Some v) = v"

definition non_person_dict_obj :: "'f pydict \<Rightarrow> 'f json \<Rightarrow> error + 'f other_ann" where
  "non_person_dict_obj data category_id =
     (case direct_else_attribute data ''track_id'' ''track_id'' of
        Inl e \<Rightarrow> Inl e
      | Inr t \<Rightarrow>
     (case direct_else_attribute data ''frame_id'' ''image_id'' of
        Inl e \<Rightarrow> Inl e
      | Inr f \<Rightarrow>
     (case dict_get data ''bbox'' of
        Inl e \<Rightarrow> Inl e
      | Inr b \<Rightarrow>
          Inr \<lparr>o_track_id = t, o_frame_id = f, o_bbox = b,
               o_occluded = occluded_or_zero (map_of data ''occluded''),
               o_category_id = category_id\<rparr>)))"

text \<open>
  An entry of \<^verbatim>\<open>results['annotations']\<close>: either the dict built by the passthrough
  or the dict built by the result encoder (below).  The numbers of a pose result
  have their own type \<open>'n\<close>.
\<close>

record ('f, 'n) person_ann =
  a_track_id :: "'f json"
  a_frame_id :: nat
  a_keypoints :: "'n list"
  a_bbox :: "'n list"
  a_occluded :: "'f json"
  a_activity :: "'f json"
  a_category_id :: int

datatype ('f, 'n) out_ann =
    NonPerson "'f other_ann"
  | PersonAnn "('f, 'n) person_ann"

text \<open>The loop threads \<^verbatim>\<open>results['annotations']\<close> and the local variable
  \<^verbatim>\<open>dict_obj\<close> (\<open>None\<close> while unbound).\<close>

fun passthrough_loop ::
  "'f py_ops \<Rightarrow> 'f json option \<Rightarrow> 'f pydict list \<Rightarrow>
   ('f, 'n) out_ann list \<times> ('f, 'n) out_ann option \<Rightarrow>
   error + ('f, 'n) out_ann list \<times> ('f, 'n) out_ann option" where
  "passthrough_loop ops this_person_cat_id [] st = Inr st"
| "passthrough_loop ops this_person_cat_id (data # rest) (anns, dict_obj) =
     (case dict_get data ''category_id'' of
        Inl e \<Rightarrow> Inl e
      | Inr category_id \<Rightarrow>
     (case this_person_cat_id of
        None \<Rightarrow> Inl UnboundLocalError
      | Some pid \<Rightarrow>
          if py_eq ops category_id pid
          then passthrough_loop ops this_person_cat_id rest (anns, dict_obj)
          else (case non_person_dict_obj data category_id of
                  Inl e \<Rightarrow> Inl e
                | Inr d \<Rightarrow>
                    passthrough_loop ops this_person_cat_id rest
                      (anns @ [NonPerson d], Some (NonPerson d)))))"

section \<open>Frame-record correlator (both scripts)\<close>

text \<open>
  \<^verbatim>\<open>
  if "frame_id" in data:
      frame_json_id = data["frame_id"]
  elif "image_id" in data:
      frame_json_id = data["image_id"] - 1
  \<close>
  There is no \<^verbatim>\<open>else\<close>: with neither key the variable \<^verbatim>\<open>frame_json_id\<close> keeps
  what it held (\<open>None\<close> while unbound).
\<close>

definition resolve_frame_json_id ::
  "'f py_ops \<Rightarrow> 'f json option \<Rightarrow> 'f pydict \<Rightarrow> error + 'f json option" where
  "resolve_frame_json_id ops frame_json_id data =
     (case map_of data ''frame_id'' of
        Some v \<Rightarrow> Inr (Some v)
      | None \<Rightarrow>
          (case map_of data ''image_id'' of
             Some v \<Rightarrow>
               (case py_sub ops v (JInt 1) of
                  Inl e \<Rightarrow> Inl e
                | Inr r \<Rightarrow> Inr (Some r))
           | None \<Rightarrow> Inr frame_json_id))"

text \<open>
  The \<^verbatim>\<open>person\<close> dict.  \<^verbatim>\<open>person['activity']\<close>, \<^verbatim>\<open>person['bbox']\<close> and
  \<^verbatim>\<open>person['category_id']\<close> are always set; \<^verbatim>\<open>person['track_id']\<close> and
  \<^verbatim>\<open>person['occluded']\<close> only in a branch, so they are optional keys.
\<close>

record 'f person =
  p_activity :: "'f json"
  p_track_id :: "'f json option"
  p_occluded :: "'f json option"
  p_bbox :: "'f json list"
  p_category_id :: int

text \<open>The \<^verbatim>\<open>elif "attributes" in data and k in data["attributes"]\<close> branch:
  \<^verbatim>\<open>data["attributes"][k]\<close> when the test holds, nothing otherwise.\<close>

definition attribute_lookup :: "'f pydict \<Rightarrow> string \<Rightarrow> error + 'f json option" where
  "attribute_lookup data k =
     (case map_of data ''attributes'' of
        None \<Rightarrow> Inr None
      | Some a \<Rightarrow>
          (case py_contains k a of
             Inl e \<Rightarrow> Inl e
           | Inr c \<Rightarrow>
               if c
               then (case py_getitem a k of Inl e \<Rightarrow> Inl e | Inr v \<Rightarrow> Inr (Some v))
               else Inr None))"

definition person_track_id :: "'f pydict \<Rightarrow> error + 'f json option" where
  "person_track_id data =
     (case map_of data ''track_id'' of
        Some v \<Rightarrow> Inr (Some v)
      | None \<Rightarrow> attribute_lookup data ''track_id'')"

definition person_occluded :: "'f py_ops \<Rightarrow> 'f pydict \<Rightarrow> error + 'f json option" where
  "person_occluded ops data =
     (case map_of data ''occluded'' of
        Some v \<Rightarrow> Inr (Some v)
      | None \<Rightarrow>
          (case attribute_lookup data ''occluded'' of
             Inl e \<Rightarrow> Inl e
           | Inr None \<Rightarrow> Inr None
           | Inr (Some v) \<Rightarrow>
               (case py_int ops v of Inl e \<Rightarrow> Inl e | Inr n \<Rightarrow> Inr (Some (JInt n)))))"

definition person_activity :: "'f pydict \<Rightarrow> error + 'f json" where
  "person_activity data =
     (case map_of data ''activity'' of
        Some v \<Rightarrow> Inr v
      | None \<Rightarrow>
          (case attribute_lookup data ''activity'' of
             Inl e \<Rightarrow> Inl e
           | Inr None \<Rightarrow> Inr (JStr '''')
           | Inr (Some v) \<Rightarrow> Inr v))"

text \<open>
  \<^verbatim>\<open>
  [data["bbox"][0], data["bbox"][1], data["bbox"][0]+data["bbox"][2],
   data["bbox"][1]+data["bbox"][3], bbox_score]
  \<close>
  evaluated left to right, with \<^verbatim>\<open>bbox_score = 1.0\<close>.
\<close>

definition person_bbox :: "'f py_ops \<Rightarrow> 'f pydict \<Rightarrow> error + 'f json list" where
  "person_bbox ops data =
     (case dict_get data ''bbox'' of
        Inl e \<Rightarrow> Inl e
      | Inr b \<Rightarrow>
     (case py_index b 0 of
        Inl e \<Rightarrow> Inl e
      | Inr x \<Rightarrow>
     (case py_index b 1 of
        Inl e \<Rightarrow> Inl e
      | Inr y \<Rightarrow>
     (case py_index b 2 of
        Inl e \<Rightarrow> Inl e
      | Inr w \<Rightarrow>
     (case py_add ops x w of
        Inl e \<Rightarrow> Inl e
      | Inr x2 \<Rightarrow>
     (case py_index b 3 of
        Inl e \<Rightarrow> Inl e
      | Inr h \<Rightarrow>
     (case py_add ops y h of
        Inl e \<Rightarrow> Inl e
      | Inr y2 \<Rightarrow> Inr [x, y, x2, y2, JFloat (float_one ops)])))))))"

text \<open>Lines 194--211 of the inference script (125--141 of the visualisation
  script, up to the order of the last assignments).\<close>

definition normalize_person :: "'f py_ops \<Rightarrow> 'f pydict \<Rightarrow> error + 'f person" where
  "normalize_person ops data =
     (case person_track_id data of
        Inl e \<Rightarrow> Inl e
      | Inr t \<Rightarrow>
     (case person_occluded ops data of
        Inl e \<Rightarrow> Inl e
      | Inr oc \<Rightarrow>
     (case person_activity data of
        Inl e \<Rightarrow> Inl e
      | Inr act \<Rightarrow>
     (case person_bbox ops data of
        Inl e \<Rightarrow> Inl e
      | Inr bb \<Rightarrow>
          Inr \<lparr>p_activity = act, p_track_id = t, p_occluded = oc, p_bbox = bb,
               p_category_id = 1\<rparr>))))"

text \<open>
  The loop over \<^verbatim>\<open>json_data["annotations"]\<close> for the frame \<^verbatim>\<open>frame_id\<close>.  It threads
  the variable \<^verbatim>\<open>frame_json_id\<close>, which also survives from one frame to the next,
  and collects the normalised records; \<open>build\<close> is the body that builds one
  entry (it differs between the two scripts).
\<close>

fun select_loop ::
  "('f pydict \<Rightarrow> error + 'p) \<Rightarrow> 'f py_ops \<Rightarrow> nat \<Rightarrow> 'f json option \<Rightarrow> 'f pydict list \<Rightarrow>
   'f json option \<times> 'p list \<Rightarrow> error + 'f json option \<times> 'p list" where
  "select_loop build ops frame_id this_person_cat_id [] st = Inr st"
| "select_loop build ops frame_id this_person_cat_id (data # rest) (frame_json_id, persons) =
     (case resolve_frame_json_id ops frame_json_id data of
        Inl e \<Rightarrow> Inl e
      | Inr None \<Rightarrow> Inl UnboundLocalError
      | Inr (Some fj) \<Rightarrow>
          if \<not> py_eq ops (JInt (int frame_id)) fj
          then select_loop build ops frame_id this_person_cat_id rest (Some fj, persons)
          else
     (case dict_get data ''category_id'' of
        Inl e \<Rightarrow> Inl e
      | Inr category_id \<Rightarrow>
     (case this_person_cat_id of
        None \<Rightarrow> Inl UnboundLocalError
      | Some pid \<Rightarrow>
          if \<not> py_eq ops category_id pid
          then select_loop build ops frame_id this_person_cat_id rest (Some fj, persons)
          else
     (case build data of
        Inl e \<Rightarrow> Inl e
      | Inr person \<Rightarrow>
          select_loop build ops frame_id this_person_cat_id rest
            (Some fj, persons @ [person])))))"

definition select_person_observations ::
  "'f py_ops \<Rightarrow> nat \<Rightarrow> 'f json option \<Rightarrow> 'f pydict list \<Rightarrow> 'f json option \<Rightarrow>
   error + 'f json option \<times> 'f person list" where
  "select_person_observations ops frame_id this_person_cat_id anns frame_json_id =
     select_loop (normalize_person ops) ops frame_id this_person_cat_id anns (frame_json_id, [])"

section \<open>Keypoint regrouping (visualisation script)\<close>

text \<open>
  \<^verbatim>\<open>
  def threewise(iterable):
      a = iter(iterable)
      return zip(a, a, a)
  \<close>
  \<^verbatim>\<open>zip\<close> draws three times from the one iterator for every triple and stops at the
  first draw that finds it exhausted; what was drawn for an incomplete triple is
  discarded.
\<close>

fun threewise :: "'a list \<Rightarrow> ('a \<times> 'a \<times> 'a) list" where
  "threewise (x # y # z # rest) = (x, y, z) # threewise rest"
| "threewise _ = []"

text \<open>\<^verbatim>\<open>iter(v)\<close>, as the sequence of values it yields: the elements of a list, the
  characters of a string, the keys of a dict; the other values are not iterable.\<close>

fun py_iter :: "'f json \<Rightarrow> error + 'f json list" where
  "py_iter (JArr xs) = Inr xs"
| "py_iter (JStr s) = Inr (map (\<lambda>c. JStr [c]) s)"
| "py_iter (JObj d) = Inr (map (\<lambda>kv. JStr (fst kv)) d)"
| "py_iter _ = Inl TypeError"

text \<open>
  \<^verbatim>\<open>
  person_key_points = []
  if "keypoints" in data:
      keypoints =  data["keypoints"]
      for x, y, z in threewise(keypoints):
          person_key_point = [x, y,z]
          person_key_points.append(person_key_point)
  \<close>
\<close>

definition person_key_points :: "'f pydict \<Rightarrow> error + 'f json list list" where
  "person_key_points data =
     (case map_of data ''keypoints'' of
        None \<Rightarrow> Inr []
      | Some keypoints \<Rightarrow>
          (case py_iter keypoints of
             Inl e \<Rightarrow> Inl e
           | Inr vs \<Rightarrow> Inr (map (\<lambda>(x, y, z). [x, y, z]) (threewise vs))))"

record 'f vis_person = "'f person" +
  p_frame_id :: nat
  p_keypoints :: "'f json list list"

definition vis_normalize_person ::
  "'f py_ops \<Rightarrow> nat \<Rightarrow> 'f pydict \<Rightarrow> error + 'f vis_person" where
  "vis_normalize_person ops frame_id data =
     (case normalize_person ops data of
        Inl e \<Rightarrow> Inl e
      | Inr person \<Rightarrow>
          (case person_key_points data of
             Inl e \<Rightarrow> Inl e
           | Inr kps \<Rightarrow>
               Inr \<lparr>p_activity = p_activity person, p_track_id = p_track_id person,
                    p_occluded = p_occluded person, p_bbox = p_bbox person,
                    p_category_id = p_category_id person,
                    p_frame_id = frame_id, p_keypoints = kps\<rparr>))"

section \<open>Result encoder (inference script, lines 241--257)\<close>

text \<open>
  Modelled from the spec: the pose stage (\<^verbatim>\<open>inference_top_down_pose_model\<close> and the
  smoother of mmpose) is not part of the sources.  Its result is the spec's
  PoseResult, \<^verbatim>\<open>{track_id, category_id, bbox: (x1,y1,x2,y2,confidence), keypoints:
  sequence of (x,y,confidence) triples, occluded?, activity?}\<close>; the optional keys are
  \<open>None\<close> when missing.  Its numbers (numpy scalars) have the type \<open>'n\<close>, and the two
  operations the encoder applies to them are taken as given: subtraction and
  \<^verbatim>\<open>round(x, 3)\<close>.
\<close>

record ('f, 'n) pose_result =
  pr_track_id :: "'f json"
  pr_category_id :: int
  pr_bbox :: "'n list"
  pr_keypoints :: "('n \<times> 'n \<times> 'n) list"
  pr_occluded :: "'f json option"
  pr_activity :: "'f json option"

record 'n np_ops =
  np_sub :: "'n \<Rightarrow> 'n \<Rightarrow> 'n"
  round3 :: "'n \<Rightarrow> 'n"

text \<open>\<^verbatim>\<open>pose_results[i]["keypoints"].flatten().tolist()\<close>\<close>

definition flatten_tolist :: "('n \<times> 'n \<times> 'n) list \<Rightarrow> 'n list" where
  "flatten_tolist kps = concat (map (\<lambda>(x, y, c). [x, y, c]) kps)"

text \<open>
  \<^verbatim>\<open>
  [pose_results[i]["bbox"][0], pose_results[i]["bbox"][1],
   round(pose_results[i]["bbox"][2]-pose_results[i]["bbox"][0],3),
   round(pose_results[i]["bbox"][3]-pose_results[i]["bbox"][1],3)]
  \<close>
\<close>

definition output_bbox :: "'n np_ops \<Rightarrow> 'n list \<Rightarrow> error + 'n list" where
  "output_bbox nops b =
     (if length b < 4 then Inl IndexError
      else Inr [b ! 0, b ! 1,
                round3 nops (np_sub nops (b ! 2) (b ! 0)),
                round3 nops (np_sub nops (b ! 3) (b ! 1))])"

text \<open>\<^verbatim>\<open>d.get("activity")\<close>: \<^verbatim>\<open>None\<close> for a missing key.\<close>

fun get_or_none :: "'f json option \<Rightarrow> 'f json" where
  "get_or_none None = JNull"
| "get_or_none (Some v) = v"

text \<open>The dict literal of lines 248--256.\<close>

definition person_dict_obj ::
  "'n np_ops \<Rightarrow> nat \<Rightarrow> 'n list \<Rightarrow> ('f, 'n) pose_result \<Rightarrow> error + ('f, 'n) person_ann" where
  "person_dict_obj nops frame_id key_point pr =
     (case output_bbox nops (pr_bbox pr) of
        Inl e \<Rightarrow> Inl e
      | Inr bb \<Rightarrow>
          Inr \<lparr>a_track_id = pr_track_id pr, a_frame_id = frame_id,
               a_keypoints = key_point, a_bbox = bb,
               a_occluded = occluded_or_zero (pr_occluded pr),
               a_activity = get_or_none (pr_activity pr),
               a_category_id = 1\<rparr>)"

text \<open>
  \<^verbatim>\<open>
  for i in range(len(pose_results)):
      pos_arr = pose_results[i]["keypoints"].flatten().tolist()
      key_point = []
      for pos in pos_arr:
          key_point.append(round(pos,3))
      if pose_results[i]["category_id"] ==  1:
          dict_obj = { ... }
      results['annotations'].append(dict_obj)
  \<close>
  The \<^verbatim>\<open>append\<close> is at the level of the loop body, after the \<^verbatim>\<open>if\<close>: it runs for
  every pose result and reads the variable \<^verbatim>\<open>dict_obj\<close>, whatever last assigned it.
\<close>

fun encode_loop ::
  "'n np_ops \<Rightarrow> nat \<Rightarrow> ('f, 'n) pose_result list \<Rightarrow>
   ('f, 'n) out_ann list \<times> ('f, 'n) out_ann option \<Rightarrow>
   error + ('f, 'n) out_ann list \<times> ('f, 'n) out_ann option" where
  "encode_loop nops frame_id [] st = Inr st"
| "encode_loop nops frame_id (pr # rest) (anns, dict_obj) =
     (let key_point = map (round3 nops) (flatten_tolist (pr_keypoints pr)) in
      case (if pr_category_id pr = 1
            then (case person_dict_obj nops frame_id key_point pr of
                    Inl e \<Rightarrow> Inl e
                  | Inr d \<Rightarrow> Inr (Some (PersonAnn d)))
            else Inr dict_obj) of
        Inl e \<Rightarrow> Inl e
      | Inr None \<Rightarrow> Inl UnboundLocalError
      | Inr (Some d) \<Rightarrow> encode_loop nops frame_id rest (anns @ [d], Some d))"

section \<open>The two scripts\<close>

text \<open>
  The local state of \<^verbatim>\<open>main\<close> that the frame loop carries from frame to frame:
  the output list, \<^verbatim>\<open>dict_obj\<close> and \<^verbatim>\<open>frame_json_id\<close>.
\<close>

record ('f, 'n) main_state =
  results_annotations :: "('f, 'n) out_ann list"
  dict_obj_var :: "('f, 'n) out_ann option"
  frame_json_id_var :: "'f json option"

text \<open>
  The statements between loading the document and the \<^verbatim>\<open>while\<close> loop of the
  inference script (lines 155--173): resolution, then the passthrough.
\<close>

definition before_frame_loop ::
  "'f py_ops \<Rightarrow> 'f document \<Rightarrow> error + 'f json option \<times> ('f, 'n) main_state" where
  "before_frame_loop ops json_data =
     (case resolve_person_cat_id json_data of
        Inl e \<Rightarrow> Inl e
      | Inr this_person_cat_id \<Rightarrow>
          (case passthrough_loop ops this_person_cat_id (annotations json_data) ([], None) of
             Inl e \<Rightarrow> Inl e
           | Inr (anns, d) \<Rightarrow>
               Inr (this_person_cat_id,
                    \<lparr>results_annotations = anns, dict_obj_var = d,
                     frame_json_id_var = None\<rparr>)))"

text \<open>
  The \<^verbatim>\<open>while\<close> loop of the inference script over a video of \<open>n\<close> frames, from
  frame \<^verbatim>\<open>frame_id\<close> on.  \<open>pose_stage\<close> stands for the calls into mmpose (inference
  and smoothing) on the frame with that index.
\<close>

fun frame_loop ::
  "'f py_ops \<Rightarrow> 'n np_ops \<Rightarrow> (nat \<Rightarrow> 'f person list \<Rightarrow> ('f, 'n) pose_result list) \<Rightarrow>
   'f document \<Rightarrow> 'f json option \<Rightarrow> nat \<Rightarrow> nat \<Rightarrow> ('f, 'n) main_state \<Rightarrow>
   error + ('f, 'n) main_state" where
  "frame_loop ops nops pose_stage json_data this_person_cat_id 0 frame_id st = Inr st"
| "frame_loop ops nops pose_stage json_data this_person_cat_id (Suc n) frame_id st =
     (case select_person_observations ops frame_id this_person_cat_id
             (annotations json_data) (frame_json_id_var st) of
        Inl e \<Rightarrow> Inl e
      | Inr (fj, person_results) \<Rightarrow>
          (case encode_loop nops frame_id (pose_stage frame_id person_results)
                  (results_annotations st, dict_obj_var st) of
             Inl e \<Rightarrow> Inl e
           | Inr (anns, d) \<Rightarrow>
               frame_loop ops nops pose_stage json_data this_person_cat_id n (Suc frame_id)
                 \<lparr>results_annotations = anns, dict_obj_var = d, frame_json_id_var = fj\<rparr>))"

text \<open>The inference script on a document and a video of \<open>n\<close> frames: the list
  written as \<^verbatim>\<open>results['annotations']\<close>, or the exception that ends the run.\<close>

definition main_top_down ::
  "'f py_ops \<Rightarrow> 'n np_ops \<Rightarrow> (nat \<Rightarrow> 'f person list \<Rightarrow> ('f, 'n) pose_result list) \<Rightarrow>
   'f document \<Rightarrow> nat \<Rightarrow> error + ('f, 'n) out_ann list" where
  "main_top_down ops nops pose_stage json_data n =
     (case before_frame_loop ops json_data of
        Inl e \<Rightarrow> Inl e
      | Inr (this_person_cat_id, st) \<Rightarrow>
          (case frame_loop ops nops pose_stage json_data this_person_cat_id n 0 st of
             Inl e \<Rightarrow> Inl e
           | Inr st' \<Rightarrow> Inr (results_annotations st')))"

text \<open>The \<^verbatim>\<open>while\<close> loop of the visualisation script: the \<^verbatim>\<open>pose_results\<close> list
  handed to the renderer for each frame.\<close>

fun vis_frame_loop ::
  "'f py_ops \<Rightarrow> 'f document \<Rightarrow> 'f json option \<Rightarrow> nat \<Rightarrow> nat \<Rightarrow> 'f json option \<Rightarrow>
   error + 'f vis_person list list" where
  "vis_frame_loop ops json_data this_person_cat_id 0 frame_id frame_json_id = Inr []"
| "vis_frame_loop ops json_data this_person_cat_id (Suc n) frame_id frame_json_id =
     (case select_loop (vis_normalize_person ops frame_id) ops frame_id this_person_cat_id
             (annotations json_data) (frame_json_id, []) of
        Inl e \<Rightarrow> Inl e
      | Inr (fj, pose_results) \<Rightarrow>
          (case vis_frame_loop ops json_data this_person_cat_id n (Suc frame_id) fj of
             Inl e \<Rightarrow> Inl e
           | Inr later \<Rightarrow> Inr (pose_results # later)))"

definition main_vis :: "'f py_ops \<Rightarrow> 'f document \<Rightarrow> nat \<Rightarrow> error + 'f vis_person list list" where
  "main_vis ops json_data n =
     (case resolve_person_cat_id json_data of
        Inl e \<Rightarrow> Inl e
      | Inr this_person_cat_id \<Rightarrow> vis_frame_loop ops json_data this_person_cat_id n 0 None)"

section \<open>Auxiliary facts\<close>

lemmas person_defs = normalize_person_def person_track_id_def person_occluded_def
  person_activity_def person_bbox_def attribute_lookup_def dict_get_def

lemma div3_step: "(3 + n) div 3 = Suc (n div (3::nat))"
  by presburger

lemma threewise_nth:
  "threewise xs =
     map (\<lambda>i. (xs ! (3 * i), xs ! (3 * i + 1), xs ! (3 * i + 2))) [0..<length xs div 3]"
proof (induction xs rule: threewise.induct)
  case (1 x y z rest)
  have d: "length (x # y # z # rest) div 3 = Suc (length rest div 3)"
    by (simp add: div3_step)
  have "[0..<length (x # y # z # rest) div 3] = 0 # map Suc [0..<length rest div 3]"
    unfolding d by (simp add: upt_conv_Cons map_Suc_upt del: upt_Suc)
  then show ?case using 1 by (simp add: comp_def)
qed simp_all

lemma threewise_length: "length (threewise xs) = length xs div 3"
  by (simp add: threewise_nth)

lemma threewise_concat:
  "concat (map (\<lambda>(x, y, z). [x, y, z]) (threewise xs)) = take (3 * (length xs div 3)) xs"
proof (induction xs rule: threewise.induct)
  case (1 x y z rest)
  have "3 * (length (x # y # z # rest) div 3) = Suc (Suc (Suc (3 * (length rest div 3))))"
    by (simp add: div3_step)
  then show ?case using 1 by simp
qed simp_all

text \<open>One scan of well-formed categories leaves the id of the last entry named
  \<^verbatim>\<open>"person"\<close> in the variable, or the variable as it was when there is none.\<close>

lemma scan_categories_result:
  assumes "\<forall>c\<in>set cats. map_of c ''name'' \<noteq> None"
      and "\<forall>c\<in>set (person_categories cats). map_of c ''id'' \<noteq> None"
  shows "scan_categories cats cur =
           Inr (case person_categories cats of
                  [] \<Rightarrow> cur
                | c # cs \<Rightarrow> map_of (last (c # cs)) ''id'')"
  using assms
proof (induction cats arbitrary: cur)
  case Nil
  then show ?case by (simp add: person_categories_def)
next
  case (Cons c cats)
  then show ?case
    by (auto simp: person_categories_def dict_get_def split: list.splits)
qed

text \<open>Scanning again changes nothing, so the outer loop over the annotations only
  decides whether the scan happens at all.\<close>

lemma resolve_loop_result:
  assumes "scan_categories cats cur = Inr r" and "scan_categories cats r = Inr r"
  shows "resolve_loop anns cats cur = Inr (if anns = [] then cur else r)"
proof (cases anns)
  case Nil
  then show ?thesis by simp
next
  case (Cons a as)
  have "resolve_loop as cats r = Inr r"
    by (induction as) (simp_all add: assms(2))
  then show ?thesis using Cons assms(1) by simp
qed

text \<open>When the encoder loop does not raise, it has appended one entry for every
  pose result, whatever its category.\<close>

lemma encode_loop_length:
  "encode_loop nops f prs (anns, d) = Inr (anns', d') \<Longrightarrow>
     length anns' = length anns + length prs"
proof (induction prs arbitrary: anns d)
  case Nil
  then show ?case by simp
next
  case (Cons pr prs)
  then show ?case
    by (auto simp: Let_def split: if_splits sum.splits option.splits)
qed

text \<open>The visualisation script builds its entry on top of the shared
  normalisation.\<close>

lemma vis_normalize_person_fields:
  assumes "vis_normalize_person ops frame_id data = Inr q"
  shows "\<exists>p. normalize_person ops data = Inr p \<and> p_activity q = p_activity p \<and>
             p_track_id q = p_track_id p \<and> p_occluded q = p_occluded p \<and>
             p_bbox q = p_bbox p \<and> p_frame_id q = frame_id"
  using assms by (auto simp: vis_normalize_person_def split: sum.splits)

text \<open>Every person entry carries the category id 1 (line 210 of the inference
  script, line 139 of the visualisation script), so every entry of
  \<^verbatim>\<open>person_results\<close> handed to the pose stage does.\<close>

lemma normalize_person_category:
  "normalize_person ops data = Inr p \<Longrightarrow> p_category_id p = 1"
  by (auto simp: normalize_person_def split: sum.splits)

lemma select_loop_step:
  assumes "select_loop build ops f pid (data # rest) (fj, ps) = Inr r"
  shows "(\<exists>v. select_loop build ops f pid rest (Some v, ps) = Inr r) \<or>
         (\<exists>v person. build data = Inr person \<and>
            select_loop build ops f pid rest (Some v, ps @ [person]) = Inr r)"
proof -
  from assms obtain v where v: "resolve_frame_json_id ops fj data = Inr (Some v)"
    by (cases "resolve_frame_json_id ops fj data") (auto split: option.splits)
  show ?thesis
  proof (cases "py_eq ops (JInt (int f)) v")
    case False
    with assms v show ?thesis by auto
  next
    case True
    with assms v obtain c p where c: "dict_get data ''category_id'' = Inr c" and p: "pid = Some p"
      by (cases "dict_get data ''category_id''"; cases pid) simp_all
    show ?thesis
    proof (cases "py_eq ops c p")
      case False
      with assms v True c p show ?thesis by auto
    next
      case eq: True
      with assms v True c p obtain person where "build data = Inr person"
        by (cases "build data") simp_all
      with assms v True c p eq show ?thesis by auto
    qed
  qed
qed

lemma select_loop_categories:
  assumes "select_loop (normalize_person ops) ops frame_id pid anns (fj, ps) = Inr (fj', ps')"
      and "\<forall>p\<in>set ps. p_category_id p = 1"
  shows "\<forall>p\<in>set ps'. p_category_id p = 1"
  using assms
proof (induction anns arbitrary: fj ps)
  case Nil
  then show ?case by simp
next
  case (Cons data rest)
  from select_loop_step [OF Cons.prems(1)]
  show ?case
  proof
    assume "\<exists>v. select_loop (normalize_person ops) ops frame_id pid rest (Some v, ps)
                 = Inr (fj', ps')"
    then obtain v where
      "select_loop (normalize_person ops) ops frame_id pid rest (Some v, ps) = Inr (fj', ps')"
      ..
    from Cons.IH [OF this Cons.prems(2)] show ?thesis .
  next
    assume "\<exists>v person. normalize_person ops data = Inr person \<and>
              select_loop (normalize_person ops) ops frame_id pid rest (Some v, ps @ [person])
                = Inr (fj', ps')"
    then obtain v person where n: "normalize_person ops data = Inr person"
      and s: "select_loop (normalize_person ops) ops frame_id pid rest (Some v, ps @ [person])
                = Inr (fj', ps')"
      by blast
    have "\<forall>p\<in>set (ps @ [person]). p_category_id p = 1"
      using Cons.prems(2) normalize_person_category [OF n] by simp
    from Cons.IH [OF s this] show ?thesis .
  qed
qed

lemma person_results_categories:
  assumes "select_person_observations ops frame_id pid anns fj = Inr (fj', person_results)"
  shows "\<forall>p\<in>set person_results. p_category_id p = 1"
  using select_loop_categories [of ops frame_id pid anns fj "[]" fj' person_results] assms
  by (simp add: select_person_observations_def)

text \<open>A record of another category whose dict can be built is appended by the
  passthrough loop as that dict.\<close>

lemma passthrough_loop_appends_entry:
  assumes "map_of data ''category_id'' = Some c" and "\<not> py_eq ops c p"
      and "non_person_dict_obj data c = Inr d"
  shows "passthrough_loop ops (Some p) [data] (anns, dobj) =
           Inr (anns @ [NonPerson d], Some (NonPerson d))"
  using assms by (simp add: dict_get_def)

section \<open>Frame index of a record (C2)\<close>

text \<open>
  Claim C2.  For every annotation record the correlator processes: when the record has
  a \<^verbatim>\<open>frame_id\<close> field, the resolved frame index is that value unchanged; when it has
  no \<^verbatim>\<open>frame_id\<close> but an (integer) \<^verbatim>\<open>image_id\<close>, the resolved frame index is
  \<^verbatim>\<open>image_id - 1\<close>.  This holds whatever \<^verbatim>\<open>frame_json_id\<close> held before, and in both
  scripts, which share this statement.
\<close>

theorem frame_index_resolution:
  "(map_of data ''frame_id'' = Some v \<longrightarrow>
      resolve_frame_json_id ops prev data = Inr (Some v)) \<and>
   (map_of data ''frame_id'' = None \<and> map_of data ''image_id'' = Some (JInt n) \<longrightarrow>
      resolve_frame_json_id ops prev data = Inr (Some (JInt (n - 1))))"
  by (simp add: resolve_frame_json_id_def py_sub_def)

text \<open>A record with both fields resolves to its \<^verbatim>\<open>frame_id\<close>; a record with
  \<^verbatim>\<open>image_id = 3\<close> alone resolves to frame 2.\<close>

theorem frame_index_resolution_witness:
  "\<forall>ops prev.
     resolve_frame_json_id ops prev [(''frame_id'', JInt 4), (''image_id'', JInt 9)]
       = Inr (Some (JInt 4)) \<and>
     resolve_frame_json_id ops prev [(''image_id'', JInt 3), (''category_id'', JInt 1)]
       = Inr (Some (JInt 2))"
proof (intro allI conjI)
  fix ops :: "'f py_ops" and prev :: "'f json option"
  show "resolve_frame_json_id ops prev [(''frame_id'', JInt 4), (''image_id'', JInt 9)]
          = Inr (Some (JInt 4))"
    using frame_index_resolution
      [where data = "[(''frame_id'', JInt 4), (''image_id'', JInt 9)]" and v = "JInt 4"
         and ops = ops and prev = prev]
    by simp
  show "resolve_frame_json_id ops prev [(''image_id'', JInt 3), (''category_id'', JInt 1)]
          = Inr (Some (JInt 2))"
    using frame_index_resolution
      [where data = "[(''image_id'', JInt 3), (''category_id'', JInt 1)]" and n = 3
         and ops = ops and prev = prev]
    by simp
qed

section \<open>Precedence of the direct fields (C5)\<close>

text \<open>
  Claim C5.  Whenever a record is normalised into a person entry, each of the three
  fields \<^verbatim>\<open>track_id\<close>, \<^verbatim>\<open>occluded\<close> and \<^verbatim>\<open>activity\<close> that is present directly on
  the record is taken from there, whether or not \<^verbatim>\<open>attributes\<close> holds a value of the
  same name.
\<close>

theorem direct_field_wins:
  assumes "normalize_person ops data = Inr p"
  shows "(map_of data ''track_id'' = Some v1 \<longrightarrow> p_track_id p = Some v1) \<and>
         (map_of data ''occluded'' = Some v2 \<longrightarrow> p_occluded p = Some v2) \<and>
         (map_of data ''activity'' = Some v3 \<longrightarrow> p_activity p = v3)"
  using assms
  by (auto simp: normalize_person_def person_track_id_def person_occluded_def
        person_activity_def split: sum.splits option.splits)

text \<open>A record that carries all three fields twice, with different values.\<close>

theorem direct_field_wins_witness:
  "\<forall>ops. \<exists>p.
     normalize_person ops
       [(''frame_id'', JInt 0), (''category_id'', JInt 1), (''track_id'', JInt 5),
        (''occluded'', JInt 1), (''activity'', JStr ''walk''),
        (''attributes'', JObj [(''track_id'', JInt 8), (''occluded'', JBool False),
                               (''activity'', JStr ''run'')]),
        (''bbox'', JArr [JInt 10, JInt 20, JInt 30, JInt 40])] = Inr p \<and>
     p_track_id p = Some (JInt 5) \<and> p_occluded p = Some (JInt 1) \<and>
     p_activity p = JStr ''walk''"
proof
  fix ops :: "'f py_ops"
  let ?data = "[(''frame_id'', JInt 0), (''category_id'', JInt 1), (''track_id'', JInt 5),
        (''occluded'', JInt 1), (''activity'', JStr ''walk''),
        (''attributes'', JObj [(''track_id'', JInt 8), (''occluded'', JBool False),
                               (''activity'', JStr ''run'')]),
        (''bbox'', JArr [JInt 10, JInt 20, JInt 30, JInt 40])] :: 'f pydict"
  have "\<exists>p. normalize_person ops ?data = Inr p"
    by (simp add: person_defs)
  then obtain p where e: "normalize_person ops ?data = Inr p" ..
  from direct_field_wins [OF e, of "JInt 5" "JInt 1" "JStr ''walk''"]
  have "p_track_id p = Some (JInt 5) \<and> p_occluded p = Some (JInt 1) \<and>
        p_activity p = JStr ''walk''"
    by simp
  with e show "\<exists>p. normalize_person ops ?data = Inr p \<and>
     p_track_id p = Some (JInt 5) \<and> p_occluded p = Some (JInt 1) \<and>
     p_activity p = JStr ''walk''"
    by blast
qed

section \<open>The encoded bounding box (C7)\<close>

text \<open>
  Claim C7.  For a pose result of category 1 with the box \<open>(x1, y1, x2, y2, c)\<close> the
  encoder appends a person annotation whose \<^verbatim>\<open>bbox\<close> is
  \<open>[x1, y1, round(x2 - x1, 3), round(y2 - y1, 3)]\<close>: width and height are rounded, the
  origin is the pose result's own, with no rounding applied.
\<close>

theorem output_bbox_rounds_size_only:
  assumes "pr_category_id pr = 1" and "pr_bbox pr = [x1, y1, x2, y2, c]"
  shows "\<exists>d. encode_loop nops frame_id [pr] (anns, dobj) =
               Inr (anns @ [PersonAnn d], Some (PersonAnn d)) \<and>
             a_bbox d =
               [x1, y1, round3 nops (np_sub nops x2 x1), round3 nops (np_sub nops y2 y1)]"
  using assms by (simp add: person_dict_obj_def output_bbox_def Let_def)

theorem output_bbox_rounds_size_only_witness:
  "\<forall>nops. \<exists>d.
     encode_loop nops 0
       [\<lparr>pr_track_id = JInt 5, pr_category_id = 1, pr_bbox = [10, 20, 40, 60, 1 :: int],
         pr_keypoints = [(11, 22, 1)], pr_occluded = None, pr_activity = None\<rparr>]
       ([], None) = Inr ([PersonAnn d], Some (PersonAnn d)) \<and>
     a_bbox d = [10, 20, round3 nops (np_sub nops 40 10), round3 nops (np_sub nops 60 20)]"
proof
  fix nops :: "int np_ops"
  show "\<exists>d.
     encode_loop nops 0
       [\<lparr>pr_track_id = JInt 5, pr_category_id = 1, pr_bbox = [10, 20, 40, 60, 1 :: int],
         pr_keypoints = [(11, 22, 1)], pr_occluded = None, pr_activity = None\<rparr>]
       ([], None) = Inr ([PersonAnn d], Some (PersonAnn d)) \<and>
     a_bbox d = [10, 20, round3 nops (np_sub nops 40 10), round3 nops (np_sub nops 60 20)]"
    using output_bbox_rounds_size_only
      [where pr = "\<lparr>pr_track_id = JInt 5, pr_category_id = 1,
           pr_bbox = [10, 20, 40, 60, 1 :: int],
           pr_keypoints = [(11, 22, 1)], pr_occluded = None, pr_activity = None\<rparr>"
         and ?x1.0 = 10 and ?y1.0 = 20 and ?x2.0 = 40 and ?y2.0 = 60 and c = 1
         and nops = nops and frame_id = 0 and anns = "[]" and dobj = None]
    by simp
qed

section \<open>The frame id of a passed-through record (C9)\<close>

text \<open>
  Claim C9.  In the non-person passthrough, a record without a direct \<^verbatim>\<open>frame_id\<close>
  gets as output \<^verbatim>\<open>frame_id\<close> the value of \<^verbatim>\<open>attributes.image_id\<close> as it stands: the
  subtraction of one that the correlator applies to \<^verbatim>\<open>image_id\<close> is not applied here.
\<close>

theorem passthrough_frame_id_unadjusted:
  assumes "map_of data ''frame_id'' = None"
      and "map_of data ''attributes'' = Some (JObj a)"
      and "map_of a ''image_id'' = Some v"
      and "non_person_dict_obj data c = Inr d"
  shows "o_frame_id d = v"
  using assms
  by (auto simp: non_person_dict_obj_def direct_else_attribute_def dict_get_def
        split: sum.splits option.splits)

text \<open>A record of category 2 with \<^verbatim>\<open>attributes.image_id = 3\<close> is written with frame
  id 3.\<close>

theorem passthrough_frame_id_unadjusted_witness:
  "\<exists>d. non_person_dict_obj
          [(''category_id'', JInt 2), (''track_id'', JInt 7),
           (''bbox'', JArr [JInt 1, JInt 2, JInt 3, JInt 4]),
           (''attributes'', JObj [(''image_id'', JInt 3)])] (JInt 2 :: 'f json) = Inr d \<and>
        o_frame_id d = JInt 3"
proof -
  let ?data = "[(''category_id'', JInt 2), (''track_id'', JInt 7),
           (''bbox'', JArr [JInt 1, JInt 2, JInt 3, JInt 4]),
           (''attributes'', JObj [(''image_id'', JInt 3)])] :: 'f pydict"
  have "\<exists>d. non_person_dict_obj ?data (JInt 2) = Inr d"
    by (simp add: non_person_dict_obj_def direct_else_attribute_def dict_get_def)
  then obtain d where e: "non_person_dict_obj ?data (JInt 2) = Inr d" ..
  have "o_frame_id d = JInt 3"
    by (rule passthrough_frame_id_unadjusted
          [where data = ?data and a = "[(''image_id'', JInt 3)]", OF _ _ _ e]) simp_all
  with e show ?thesis by blast
qed

section \<open>Regrouping of the keypoints (C10)\<close>

text \<open>
  Claim C10.  In the visualisation script a flat \<^verbatim>\<open>keypoints\<close> list \<open>xs\<close> is regrouped
  without error into \<open>length xs div 3\<close> consecutive triples
  \<open>[xs[3i], xs[3i+1], xs[3i+2]]\<close>; the one or two values left over when the length is
  not a multiple of three belong to no triple.
\<close>

theorem keypoints_regrouped_by_three:
  assumes "map_of data ''keypoints'' = Some (JArr xs)"
  shows "person_key_points data =
           Inr (map (\<lambda>i. [xs ! (3 * i), xs ! (3 * i + 1), xs ! (3 * i + 2)])
                  [0..<length xs div 3])"
  using assms by (simp add: person_key_points_def threewise_nth comp_def)

text \<open>Five values give one triple; the last two are dropped.\<close>

theorem keypoints_regrouped_by_three_witness:
  "person_key_points
     [(''keypoints'', JArr [JInt 1, JInt 2, JInt 3, JInt 4, JInt 5])] =
   Inr [[JInt 1, JInt 2, JInt 3]]"
  using keypoints_regrouped_by_three
    [where data = "[(''keypoints'', JArr [JInt 1, JInt 2, JInt 3, JInt 4, JInt 5])]"
       and xs = "[JInt 1, JInt 2, JInt 3, JInt 4, JInt 5]"]
  by simp

section \<open>Resolution of the person category id (C4)\<close>

text \<open>
  Claim C4, as amended.  The resolution rescans \<^verbatim>\<open>categories\<close> once per annotation
  record and raises no schema error of its own.  For categories that all have a
  \<^verbatim>\<open>name\<close>, and an \<^verbatim>\<open>id\<close> where the name is \<^verbatim>\<open>"person"\<close>:
  \<^item> with an empty annotations list nothing is scanned; the id stays unresolved and
    the statements before the frame loop of the inference script finish without
    error, with no output entry;
  \<^item> with a non-empty annotations list and a \<^verbatim>\<open>"person"\<close> category, the resolved id
    is the \<^verbatim>\<open>id\<close> of the last such category;
  \<^item> with a non-empty annotations list and no \<^verbatim>\<open>"person"\<close> category, the id stays
    unresolved and the inference script stops before the frame loop, in the
    passthrough, on its first record: with \<^verbatim>\<open>KeyError\<close> when that record has no
    \<^verbatim>\<open>category_id\<close>, else with \<^verbatim>\<open>UnboundLocalError\<close> at the first use of the id.
\<close>

theorem person_category_resolution:
  assumes "\<forall>c\<in>set (categories doc). map_of c ''name'' \<noteq> None"
      and "\<forall>c\<in>set (person_categories (categories doc)). map_of c ''id'' \<noteq> None"
  shows "(annotations doc = [] \<longrightarrow>
            resolve_person_cat_id doc = Inr None \<and>
            (before_frame_loop ops doc :: error + 'f json option \<times> ('f, 'n) main_state) =
              Inr (None, \<lparr>results_annotations = [], dict_obj_var = None,
                           frame_json_id_var = None\<rparr>)) \<and>
         (annotations doc \<noteq> [] \<and> person_categories (categories doc) \<noteq> [] \<longrightarrow>
            resolve_person_cat_id doc =
              Inr (map_of (last (person_categories (categories doc))) ''id'')) \<and>
         (annotations doc \<noteq> [] \<and> person_categories (categories doc) = [] \<longrightarrow>
            resolve_person_cat_id doc = Inr None \<and>
            (before_frame_loop ops doc :: error + 'f json option \<times> ('f, 'n) main_state) =
              Inl (if map_of (hd (annotations doc)) ''category_id'' = None
                   then KeyError else UnboundLocalError))"
proof -
  let ?cats = "categories doc"
  let ?r = "\<lambda>cur. case person_categories ?cats of
                     [] \<Rightarrow> cur
                   | c # cs \<Rightarrow> map_of (last (c # cs)) ''id''"
  have s: "scan_categories ?cats cur = Inr (?r cur)" for cur
    using scan_categories_result [OF assms] .
  have idem: "?r (?r None) = ?r None"
    by (simp split: list.splits)
  have r: "resolve_person_cat_id doc = Inr (if annotations doc = [] then None else ?r None)"
    unfolding resolve_person_cat_id_def
    using resolve_loop_result [of ?cats None "?r None" "annotations doc"]
      s [of None] s [of "?r None"] idem
    by simp
  have a: "annotations doc = [] \<Longrightarrow>
      (before_frame_loop ops doc :: error + 'f json option \<times> ('f, 'n) main_state) =
        Inr (None, \<lparr>results_annotations = [], dict_obj_var = None,
                     frame_json_id_var = None\<rparr>)"
    by (simp add: before_frame_loop_def r)
  have c: "annotations doc \<noteq> [] \<Longrightarrow> person_categories ?cats = [] \<Longrightarrow>
      (before_frame_loop ops doc :: error + 'f json option \<times> ('f, 'n) main_state) =
        Inl (if map_of (hd (annotations doc)) ''category_id'' = None
             then KeyError else UnboundLocalError)"
    by (cases "annotations doc")
      (auto simp: before_frame_loop_def r dict_get_def split: option.splits)
  show ?thesis using r a c by (auto split: list.splits)
qed

text \<open>
  The claim as stated fails on a document with no annotation and no category: there
  is no \<^verbatim>\<open>"person"\<close> category, and nothing fails before the frame loop.  It also
  fails on a document whose categories hold a \<^verbatim>\<open>"person"\<close> entry but whose
  annotations list is empty: no id is resolved.  In the visualisation script even a
  non-empty annotations list need not bring the missing category to light: a record
  of frame 5 is never reached by a video of one frame, and the run ends normally.
\<close>

theorem no_schema_error_without_annotations:
  "(\<forall>ops. before_frame_loop ops \<lparr>annotations = [], categories = []\<rparr> =
      Inr (None, \<lparr>results_annotations = [], dict_obj_var = None,
                   frame_json_id_var = None\<rparr>)) \<and>
   resolve_person_cat_id
     \<lparr>annotations = [],
      categories = [[(''id'', JInt 1), (''name'', JStr ''person'')]]\<rparr> = Inr None \<and>
   (\<forall>ops. main_vis ops
      \<lparr>annotations = [[(''frame_id'', JInt 5), (''category_id'', JInt 1)]],
       categories = []\<rparr> 1 = Inr [[]])"
  by (simp add: before_frame_loop_def resolve_person_cat_id_def main_vis_def
        resolve_frame_json_id_def)

text \<open>One annotation and only a \<^verbatim>\<open>"car"\<close> category: the run stops before the frame
  loop.  With a \<^verbatim>\<open>"person"\<close> category of id 1 added, the id resolves to 1.\<close>

theorem person_category_resolution_witness:
  "(\<forall>ops :: 'f py_ops.
      (before_frame_loop ops
         \<lparr>annotations = [[(''frame_id'', JInt 0), (''category_id'', JInt 1)]],
          categories = [[(''id'', JInt 3), (''name'', JStr ''car'')]]\<rparr>
        :: error + 'f json option \<times> ('f, 'n) main_state) = Inl UnboundLocalError) \<and>
   resolve_person_cat_id
     \<lparr>annotations = [[(''frame_id'', JInt 0), (''category_id'', JInt 1)]],
      categories = [[(''id'', JInt 3), (''name'', JStr ''car'')],
                    [(''id'', JInt 1), (''name'', JStr ''person'')]]\<rparr>
     = Inr (Some (JInt 1))"
proof -
  let ?d1 = "\<lparr>annotations = [[(''frame_id'', JInt 0), (''category_id'', JInt 1)]],
        categories = [[(''id'', JInt 3), (''name'', JStr ''car'')]]\<rparr>"
  let ?d2 = "\<lparr>annotations = [[(''frame_id'', JInt 0), (''category_id'', JInt 1)]],
      categories = [[(''id'', JInt 3), (''name'', JStr ''car'')],
                    [(''id'', JInt 1), (''name'', JStr ''person'')]]\<rparr>"
  have 1: "(before_frame_loop ops ?d1 :: error + 'f json option \<times> ('f, 'n) main_state)
              = Inl UnboundLocalError" for ops :: "'f py_ops"
    using person_category_resolution [where ?'n = 'n, of ?d1 ops]
    by (simp add: person_categories_def)
  have 2: "resolve_person_cat_id ?d2 = Inr (Some (JInt 1))"
    using person_category_resolution [of ?d2] by (simp add: person_categories_def)
  show ?thesis using 1 2 by blast
qed

section \<open>Defaults of a person entry (C8)\<close>

text \<open>
  Claim C8, as amended.  Every person entry the correlator produces has an
  \<^verbatim>\<open>activity\<close> that is the empty string when the record has no \<^verbatim>\<open>activity\<close>, neither
  directly nor under \<^verbatim>\<open>attributes\<close>.  Its \<^verbatim>\<open>occluded\<close> is the record's direct
  \<^verbatim>\<open>occluded\<close> value as given, else \<^verbatim>\<open>int()\<close> of the value under \<^verbatim>\<open>attributes\<close>; when
  the record has neither, the entry has no \<^verbatim>\<open>occluded\<close> key at all.
\<close>

theorem person_entry_defaults:
  assumes "normalize_person ops data = Inr p"
  shows "(map_of data ''activity'' = None \<and>
            (\<forall>a. map_of data ''attributes'' = Some (JObj a) \<longrightarrow> map_of a ''activity'' = None)
            \<longrightarrow> p_activity p = JStr '''') \<and>
         (map_of data ''occluded'' = Some v \<longrightarrow> p_occluded p = Some v) \<and>
         (map_of data ''occluded'' = None \<and> map_of data ''attributes'' = Some (JObj a) \<and>
            map_of a ''occluded'' = Some w
            \<longrightarrow> (\<exists>n. py_int ops w = Inr n \<and> p_occluded p = Some (JInt n))) \<and>
         (map_of data ''occluded'' = None \<and>
            (\<forall>a. map_of data ''attributes'' = Some (JObj a) \<longrightarrow> map_of a ''occluded'' = None)
            \<longrightarrow> p_occluded p = None)"
proof -
  have nested_none: "r = None"
    if "attribute_lookup data k = Inr r"
      and "\<forall>a. map_of data ''attributes'' = Some (JObj a) \<longrightarrow> map_of a k = None" for k r
  proof (cases "map_of data ''attributes''")
    case None
    with that show ?thesis by (simp add: attribute_lookup_def)
  next
    case (Some x)
    with that show ?thesis
      by (cases x)
        (auto simp: attribute_lookup_def dict_get_def split: if_splits sum.splits option.splits)
  qed
  have nested_some: "attribute_lookup data k = Inr (Some w)"
    if "map_of data ''attributes'' = Some (JObj a)" "map_of a k = Some w" for k
    using that by (simp add: attribute_lookup_def dict_get_def)
  from assms obtain t oc act bb where
    oc: "person_occluded ops data = Inr oc" and act: "person_activity data = Inr act"
    and p: "p = \<lparr>p_activity = act, p_track_id = t, p_occluded = oc, p_bbox = bb,
                  p_category_id = 1\<rparr>"
    by (auto simp: normalize_person_def split: sum.splits)
  have 1: "act = JStr ''''" if "map_of data ''activity'' = None"
     "\<forall>a. map_of data ''attributes'' = Some (JObj a) \<longrightarrow> map_of a ''activity'' = None"
    using act that nested_none [of "''activity''"]
    by (auto simp: person_activity_def split: sum.splits option.splits)
  have 2: "oc = Some v" if "map_of data ''occluded'' = Some v"
    using oc that by (simp add: person_occluded_def)
  have 3: "\<exists>n. py_int ops w = Inr n \<and> oc = Some (JInt n)"
    if "map_of data ''occluded'' = None" "map_of data ''attributes'' = Some (JObj a)"
       "map_of a ''occluded'' = Some w"
    using oc that nested_some [of "''occluded''"]
    by (auto simp: person_occluded_def split: sum.splits)
  have 4: "oc = None" if "map_of data ''occluded'' = None"
     "\<forall>a. map_of data ''attributes'' = Some (JObj a) \<longrightarrow> map_of a ''occluded'' = None"
    using oc that nested_none [of "''occluded''"]
    by (auto simp: person_occluded_def split: sum.splits option.splits)
  show ?thesis using 1 2 3 4 by (simp add: p)
qed

text \<open>
  The claim as stated fails on a record without any \<^verbatim>\<open>occluded\<close> field: the person
  entry has no \<^verbatim>\<open>occluded\<close> key, rather than the value 0.  A direct value that is
  neither 0 nor 1 is copied as it is.
\<close>

theorem person_entry_occluded_not_defaulted:
  "\<forall>ops.
     normalize_person ops
       [(''frame_id'', JInt 0), (''category_id'', JInt 1), (''track_id'', JInt 5),
        (''bbox'', JArr [JInt 10, JInt 20, JInt 30, JInt 40])] =
     Inr \<lparr>p_activity = JStr '''', p_track_id = Some (JInt 5), p_occluded = None,
          p_bbox = [JInt 10, JInt 20, JInt 40, JInt 60, JFloat (float_one ops)],
          p_category_id = 1\<rparr> \<and>
     normalize_person ops
       [(''frame_id'', JInt 0), (''category_id'', JInt 1), (''track_id'', JInt 5),
        (''occluded'', JInt 7), (''bbox'', JArr [JInt 10, JInt 20, JInt 30, JInt 40])] =
     Inr \<lparr>p_activity = JStr '''', p_track_id = Some (JInt 5), p_occluded = Some (JInt 7),
          p_bbox = [JInt 10, JInt 20, JInt 40, JInt 60, JFloat (float_one ops)],
          p_category_id = 1\<rparr>"
  by (simp add: person_defs)

text \<open>A record with \<^verbatim>\<open>attributes.occluded = true\<close> and no activity, and a record with
  no \<^verbatim>\<open>attributes\<close> at all.\<close>

theorem person_entry_defaults_witness:
  "\<forall>ops. \<exists>p q.
     normalize_person ops
       [(''frame_id'', JInt 0), (''category_id'', JInt 1),
        (''attributes'', JObj [(''track_id'', JInt 8), (''occluded'', JBool True)]),
        (''bbox'', JArr [JInt 10, JInt 20, JInt 30, JInt 40])] = Inr p \<and>
     p_activity p = JStr '''' \<and> p_occluded p = Some (JInt 1) \<and>
     normalize_person ops
       [(''frame_id'', JInt 0), (''category_id'', JInt 1), (''track_id'', JInt 5),
        (''bbox'', JArr [JInt 10, JInt 20, JInt 30, JInt 40])] = Inr q \<and>
     p_activity q = JStr '''' \<and> p_occluded q = None"
proof
  fix ops :: "'f py_ops"
  let ?d1 = "[(''frame_id'', JInt 0), (''category_id'', JInt 1),
        (''attributes'', JObj [(''track_id'', JInt 8), (''occluded'', JBool True)]),
        (''bbox'', JArr [JInt 10, JInt 20, JInt 30, JInt 40])] :: 'f pydict"
  let ?d2 = "[(''frame_id'', JInt 0), (''category_id'', JInt 1), (''track_id'', JInt 5),
        (''bbox'', JArr [JInt 10, JInt 20, JInt 30, JInt 40])] :: 'f pydict"
  have "\<exists>p. normalize_person ops ?d1 = Inr p" and "\<exists>q. normalize_person ops ?d2 = Inr q"
    by (simp_all add: person_defs)
  then obtain p q where
    p: "normalize_person ops ?d1 = Inr p" and q: "normalize_person ops ?d2 = Inr q"
    by blast
  from person_entry_defaults
    [OF p, where a = "[(''track_id'', JInt 8), (''occluded'', JBool True)]"
       and w = "JBool True"]
  have 1: "p_activity p = JStr '''' \<and> p_occluded p = Some (JInt 1)"
    by simp
  from person_entry_defaults [OF q]
  have 2: "p_activity q = JStr '''' \<and> p_occluded q = None"
    by simp
  from p q 1 2 show "\<exists>p q.
     normalize_person ops ?d1 = Inr p \<and>
     p_activity p = JStr '''' \<and> p_occluded p = Some (JInt 1) \<and>
     normalize_person ops ?d2 = Inr q \<and>
     p_activity q = JStr '''' \<and> p_occluded q = None"
    by blast
qed

section \<open>One annotation per person pose result (C1)\<close>



text \<open>
  The hypothesis on the category is needed.  The \<^verbatim>\<open>append\<close> stands in the loop but
  outside the \<^verbatim>\<open>if\<close>, so a pose result of another category, which the pose stage
  does not return for person entries, would repeat the entry built last, or find
  \<^verbatim>\<open>dict_obj\<close> unbound.
\<close>

lemma encode_loop_other_category:
  "encode_loop nops 0
     [\<lparr>pr_track_id = JInt 5, pr_category_id = 1, pr_bbox = [10, 20, 40, 60, 1 :: int],
       pr_keypoints = [(11, 22, 1)], pr_occluded = None, pr_activity = None\<rparr>,
      \<lparr>pr_track_id = JInt 9, pr_category_id = 2, pr_bbox = [0, 0, 5, 5, 1],
       pr_keypoints = [(1, 2, 1)], pr_occluded = None, pr_activity = None\<rparr>] ([], None) =
   Inr ([PersonAnn \<lparr>a_track_id = JInt 5, a_frame_id = 0,
            a_keypoints = [round3 nops 11, round3 nops 22, round3 nops 1],
            a_bbox = [10, 20, round3 nops (np_sub nops 40 10), round3 nops (np_sub nops 60 20)],
            a_occluded = JInt 0, a_activity = JNull, a_category_id = 1\<rparr>,
         PersonAnn \<lparr>a_track_id = JInt 5, a_frame_id = 0,
            a_keypoints = [round3 nops 11, round3 nops 22, round3 nops 1],
            a_bbox = [10, 20, round3 nops (np_sub nops 40 10), round3 nops (np_sub nops 60 20)],
            a_occluded = JInt 0, a_activity = JNull, a_category_id = 1\<rparr>],
        Some (PersonAnn \<lparr>a_track_id = JInt 5, a_frame_id = 0,
            a_keypoints = [round3 nops 11, round3 nops 22, round3 nops 1],
            a_bbox = [10, 20, round3 nops (np_sub nops 40 10), round3 nops (np_sub nops 60 20)],
            a_occluded = JInt 0, a_activity = JNull, a_category_id = 1\<rparr>)) \<and>
   encode_loop nops 0
     [\<lparr>pr_track_id = JInt 9, pr_category_id = 2, pr_bbox = [0, 0, 5, 5, 1 :: int],
       pr_keypoints = [(1, 2, 1)], pr_occluded = None, pr_activity = None\<rparr>] ([], None) =
   Inl UnboundLocalError"
  by (simp add: person_dict_obj_def output_bbox_def flatten_tolist_def Let_def)

section \<open>Records without a frame index (C3)\<close>

text \<open>
  Claim C3 says that a record with neither \<^verbatim>\<open>frame_id\<close> nor \<^verbatim>\<open>image_id\<close> is skipped
  and the run goes on.  The \<^verbatim>\<open>if\<close>/\<^verbatim>\<open>elif\<close> has no \<^verbatim>\<open>else\<close>, so the claim fails on the
  code: such a record is compared with whatever \<^verbatim>\<open>frame_json_id\<close> held.  When it is
  the first record ever read, the variable is unbound and the loop raises
  \<^verbatim>\<open>UnboundLocalError\<close>, which ends the run of either script; when it follows a record
  of frame 0, it is itself taken as a record of frame 0 and yields a person entry.
\<close>

theorem record_without_frame_index_not_skipped:
  "select_person_observations ops 0 (Some (JInt 1))
     [[(''category_id'', JInt 1), (''track_id'', JInt 6),
       (''bbox'', JArr [JInt 1, JInt 2, JInt 3, JInt 4])]] None = Inl UnboundLocalError \<and>
   select_person_observations ops 0 (Some (JInt 1))
     [[(''frame_id'', JInt 0), (''category_id'', JInt 1), (''track_id'', JInt 5),
       (''bbox'', JArr [JInt 10, JInt 20, JInt 30, JInt 40])],
      [(''category_id'', JInt 1), (''track_id'', JInt 6),
       (''bbox'', JArr [JInt 1, JInt 2, JInt 3, JInt 4])]] None =
   Inr (Some (JInt 0),
        [\<lparr>p_activity = JStr '''', p_track_id = Some (JInt 5), p_occluded = None,
          p_bbox = [JInt 10, JInt 20, JInt 40, JInt 60, JFloat (float_one ops)],
          p_category_id = 1\<rparr>,
         \<lparr>p_activity = JStr '''', p_track_id = Some (JInt 6), p_occluded = None,
          p_bbox = [JInt 1, JInt 2, JInt 4, JInt 6, JFloat (float_one ops)],
          p_category_id = 1\<rparr>]) \<and>
   main_top_down ops nops pose_stage
     \<lparr>annotations = [[(''category_id'', JInt 1), (''track_id'', JInt 6),
                       (''bbox'', JArr [JInt 1, JInt 2, JInt 3, JInt 4])]],
      categories = [[(''id'', JInt 1), (''name'', JStr ''person'')]]\<rparr> 1
     = Inl UnboundLocalError \<and>
   main_vis ops
     \<lparr>annotations = [[(''category_id'', JInt 1), (''track_id'', JInt 6),
                       (''bbox'', JArr [JInt 1, JInt 2, JInt 3, JInt 4])]],
      categories = [[(''id'', JInt 1), (''name'', JStr ''person'')]]\<rparr> 1
     = Inl UnboundLocalError"
  by (simp add: select_person_observations_def resolve_frame_json_id_def person_defs
        main_top_down_def main_vis_def before_frame_loop_def resolve_person_cat_id_def)

section \<open>The two box conversions on exact integers\<close>

text \<open>
  The correlator turns \<open>(x, y, w, h)\<close> into \<open>(x, y, x + w, y + h, 1.0)\<close> and the
  encoder turns \<open>(x1, y1, x2, y2, c)\<close> into \<open>(x1, y1, round(x2 - x1, 3),
  round(y2 - y1, 3))\<close>.  On Python integers the first is exact; with an exact
  subtraction and a rounding that leaves integers alone, the second undoes it.
  Nothing is stated here about floats, whose arithmetic the model leaves open.
\<close>

lemma person_bbox_exact_int:
  assumes "map_of data ''bbox'' = Some (JArr [JInt x, JInt y, JInt w, JInt h])"
  shows "person_bbox ops data =
           Inr [JInt x, JInt y, JInt (x + w), JInt (y + h), JFloat (float_one ops)]"
  using assms by (simp add: person_bbox_def dict_get_def)

lemma output_bbox_exact_int:
  "output_bbox \<lparr>np_sub = (-), round3 = id\<rparr> [x, y, x + w, y + h, c] = Inr [x, y, w, h :: int]"
  by (simp add: output_bbox_def)

end
